theory Spec2Isabelle
  imports Complex_Main "HOL-Library.Word"
begin

unbundle bit_operations_syntax

section \<open>Values exchanged on the two websockets\<close>

text \<open>
  Both relay loops of \<^verbatim>\<open>handle_media_stream\<close> (src/main.py, lines 97-144) read text
  frames, pass them to \<^verbatim>\<open>json.loads\<close> and work on the resulting Python value. The
  value is modelled as a datatype; a \<^verbatim>\<open>dict\<close> is the list of its items (so the keys of
  a \<open>JObj\<close> are distinct), a float is given by its value.
\<close>

datatype json =
    JNull
  | JBool bool
  | JInt int
  | JFloat rat
  | JStr string
  | JArr "json list"
  | JObj "(string \<times> json) list"

text \<open>The exceptions (all subclasses of \<^verbatim>\<open>Exception\<close>) that the two loops can meet.\<close>

datatype exn =
    JSONDecodeError
  | KeyError string
  | TypeError
  | ValueError
  | AttributeError
  | BinasciiError
  | WebSocketDisconnect
  | ConnectionClosedError
  | RuntimeError

text \<open>
  A text frame is represented by what \<^verbatim>\<open>json.loads\<close> makes of it: \<open>None\<close> where the
  text is not JSON and \<^verbatim>\<open>json.loads\<close> raises.
\<close>

type_synonym text_frame = "json option"

definition json_loads :: "text_frame \<Rightarrow> exn + json" where
  "json_loads message = (case message of None \<Rightarrow> Inl JSONDecodeError | Some v \<Rightarrow> Inr v)"

text \<open>\<^verbatim>\<open>d[k]\<close> with a string key: only a dict that has the key answers.\<close>

fun getitem :: "json \<Rightarrow> string \<Rightarrow> exn + json" where
  "getitem (JObj kvs) k = (case map_of kvs k of None \<Rightarrow> Inl (KeyError k) | Some v \<Rightarrow> Inr v)"
| "getitem _ k = Inl TypeError"

text \<open>\<^verbatim>\<open>d.get(k)\<close>: \<^verbatim>\<open>None\<close> for a missing key; only a dict has the method.\<close>

fun dict_get :: "json \<Rightarrow> string \<Rightarrow> exn + json" where
  "dict_get (JObj kvs) k = (case map_of kvs k of None \<Rightarrow> Inr JNull | Some v \<Rightarrow> Inr v)"
| "dict_get _ k = Inl AttributeError"

text \<open>Python's truth value of an object, as \<^verbatim>\<open>and\<close> and \<^verbatim>\<open>if\<close> test it.\<close>

fun truthy :: "json \<Rightarrow> bool" where
  "truthy JNull = False"
| "truthy (JBool b) = b"
| "truthy (JInt i) = (i \<noteq> 0)"
| "truthy (JFloat r) = (r \<noteq> 0)"
| "truthy (JStr s) = (s \<noteq> [])"
| "truthy (JArr xs) = (xs \<noteq> [])"
| "truthy (JObj kvs) = (kvs \<noteq> [])"

section \<open>Base64 as line 132 uses it\<close>

text \<open>
  Line 132 is
  \<^verbatim>\<open>base64.b64encode(base64.b64decode(response['delta'])).decode('utf-8')\<close>.
  \<^verbatim>\<open>b64encode\<close> is the encoding of RFC 4648 with padding. \<^verbatim>\<open>b64decode\<close> is called
  without \<^verbatim>\<open>validate\<close>, so it is the lenient decoder of \<^verbatim>\<open>binascii.a2b_base64\<close>:
  characters outside the alphabet are skipped, decoding stops at the padding that
  completes a group of four, and the input is refused only when the characters of the
  alphabet do not fill their last group.
\<close>

type_synonym byte = "8 word"

definition b64_alphabet :: string where
  "b64_alphabet = ''ABCDEFGHIJKLMNOPQRSTUVWXYZabcdefghijklmnopqrstuvwxyz0123456789+/''"

definition table_b2a_base64 :: "byte \<Rightarrow> char" where
  "table_b2a_base64 v = b64_alphabet ! unat v"

definition table_a2b_base64 :: "char \<Rightarrow> byte option" where
  "table_a2b_base64 c = map_of (zip b64_alphabet (map of_nat [0..<64])) c"

fun b64encode :: "byte list \<Rightarrow> string" where
  "b64encode [] = []"
| "b64encode [a] =
     [table_b2a_base64 (drop_bit 2 a),
      table_b2a_base64 (push_bit 4 (a AND 3)),
      CHR ''='', CHR ''='']"
| "b64encode [a, b] =
     [table_b2a_base64 (drop_bit 2 a),
      table_b2a_base64 (push_bit 4 (a AND 3) OR drop_bit 4 b),
      table_b2a_base64 (push_bit 2 (b AND 15)),
      CHR ''='']"
| "b64encode (a # b # c # bs) =
     [table_b2a_base64 (drop_bit 2 a),
      table_b2a_base64 (push_bit 4 (a AND 3) OR drop_bit 4 b),
      table_b2a_base64 (push_bit 2 (b AND 15) OR drop_bit 6 c),
      table_b2a_base64 (c AND 63)] @ b64encode bs"

text \<open>
  The decoding loop of \<^verbatim>\<open>binascii.a2b_base64\<close> in its non-strict mode, one character
  at a time: \<open>quad_pos\<close> is the position in the current group of four, \<open>leftchar\<close> the
  bits not yet written, \<open>pads\<close> the padding characters seen since the last character
  of the alphabet.
\<close>

fun a2b_base64 :: "string \<Rightarrow> nat \<Rightarrow> byte \<Rightarrow> nat \<Rightarrow> byte list \<Rightarrow> exn + byte list" where
  "a2b_base64 [] quad_pos leftchar pads out =
     (if quad_pos \<noteq> 0 then Inl BinasciiError else Inr out)"
| "a2b_base64 (this_ch # rest) quad_pos leftchar pads out =
     (if this_ch = CHR ''='' then
        (if 2 \<le> quad_pos \<and> 4 \<le> quad_pos + (pads + 1) then Inr out
         else a2b_base64 rest quad_pos leftchar (if 2 \<le> quad_pos then pads + 1 else pads) out)
      else
        (case table_a2b_base64 this_ch of
           None \<Rightarrow> a2b_base64 rest quad_pos leftchar pads out
         | Some v \<Rightarrow>
             (if quad_pos = 0 then a2b_base64 rest 1 v 0 out
              else if quad_pos = 1 then
                a2b_base64 rest 2 (v AND 15) 0 (out @ [push_bit 2 leftchar OR drop_bit 4 v])
              else if quad_pos = 2 then
                a2b_base64 rest 3 (v AND 3) 0 (out @ [push_bit 4 leftchar OR drop_bit 2 v])
              else
                a2b_base64 rest 0 0 0 (out @ [push_bit 6 leftchar OR v]))))"

text \<open>
  \<^verbatim>\<open>base64.b64decode(s)\<close> on a value from JSON: anything but a string is a
  \<^verbatim>\<open>TypeError\<close>, a string with a character outside ASCII a \<^verbatim>\<open>ValueError\<close>.
\<close>

definition is_ascii :: "string \<Rightarrow> bool" where
  "is_ascii s = list_all (\<lambda>c. (of_char c :: nat) < 128) s"

fun b64decode :: "json \<Rightarrow> exn + byte list" where
  "b64decode (JStr s) = (if is_ascii s then a2b_base64 s 0 0 0 [] else Inl ValueError)"
| "b64decode _ = Inl TypeError"

section \<open>The call session and its two relay loops\<close>

text \<open>
  The state the two coroutines share: the variable \<^verbatim>\<open>stream_sid\<close> (line 95,
  \<^verbatim>\<open>None\<close> at first), the flag \<^verbatim>\<open>openai_ws.open\<close>, and whether each loop is still
  running. A loop that has stopped has returned or has let an exception escape.
\<close>

datatype loop_state = Running | Returned | Raised exn

record session =
  stream_sid :: json
  ai_open :: bool
  inbound :: loop_state
  outbound :: loop_state

definition initial :: session where
  "initial = \<lparr>stream_sid = JNull, ai_open = True, inbound = Running, outbound = Running\<rparr>"

text \<open>What the loops do to the outside: calls on the two connections, and prints.\<close>

datatype diag =
    IncomingStreamStarted json
  | ClientDisconnected
  | ReceivedEvent json json
  | SessionUpdated json
  | ErrorProcessingAudio exn
  | ErrorInSendToTwilio exn

datatype action =
    AiSend json
  | AiClose
  | TwilioSendJson json
  | Print diag

definition LOG_EVENT_TYPES :: "string list" where
  "LOG_EVENT_TYPES =
     [''response.content.done'', ''rate_limits.updated'', ''response.done'',
      ''input_audio_buffer.committed'', ''input_audio_buffer.speech_stopped'',
      ''input_audio_buffer.speech_started'', ''session.created'']"

definition audio_append :: "json \<Rightarrow> json" where
  "audio_append payload =
     JObj [(''type'', JStr ''input_audio_buffer.append''), (''audio'', payload)]"

definition audio_delta :: "json \<Rightarrow> string \<Rightarrow> json" where
  "audio_delta sid audio_payload =
     JObj [(''event'', JStr ''media''), (''streamSid'', sid),
           (''media'', JObj [(''payload'', JStr audio_payload)])]"

text \<open>
  What an iteration over a websocket hands to the loop: the next text frame, an
  exception raised by the iterator, or the end of the iteration.
\<close>

datatype recv = Text text_frame | Raise exn | StopIteration

text \<open>Lines 102-113: the body of the loop of \<^verbatim>\<open>receive_from_twilio\<close>.\<close>

definition receive_body :: "session \<Rightarrow> text_frame \<Rightarrow> exn + session \<times> action list" where
  "receive_body s message =
     (case json_loads message of Inl e \<Rightarrow> Inl e | Inr data \<Rightarrow>
      (case getitem data ''event'' of Inl e \<Rightarrow> Inl e | Inr ev \<Rightarrow>
         if ev = JStr ''media'' \<and> ai_open s then
           (case getitem data ''media'' of Inl e \<Rightarrow> Inl e | Inr media \<Rightarrow>
            (case getitem media ''payload'' of Inl e \<Rightarrow> Inl e | Inr payload \<Rightarrow>
               Inr (s, [AiSend (audio_append payload)])))
         else if ev = JStr ''start'' then
           (case getitem data ''start'' of Inl e \<Rightarrow> Inl e | Inr start \<Rightarrow>
            (case getitem start ''streamSid'' of Inl e \<Rightarrow> Inl e | Inr sid \<Rightarrow>
               Inr (s\<lparr>stream_sid := sid\<rparr>, [Print (IncomingStreamStarted sid)])))
         else Inr (s, [])))"

text \<open>
  Lines 100-117: \<^verbatim>\<open>receive_from_twilio\<close>, one step of its loop. Only
  \<^verbatim>\<open>WebSocketDisconnect\<close> is caught; its handler closes the AI connection if that is
  open. Any other exception leaves the coroutine. When the iteration of
  \<^verbatim>\<open>websocket.iter_text()\<close> just ends, the loop is left without any handler running;
  this is how the closing of the telephony connection arrives, since
  \<^verbatim>\<open>iter_text\<close> catches \<^verbatim>\<open>WebSocketDisconnect\<close> and stops.
\<close>

definition receive_except :: "session \<Rightarrow> exn \<Rightarrow> session \<times> action list" where
  "receive_except s e =
     (if e = WebSocketDisconnect then
        (if ai_open s
         then (s\<lparr>ai_open := False, inbound := Returned\<rparr>, [Print ClientDisconnected, AiClose])
         else (s\<lparr>inbound := Returned\<rparr>, [Print ClientDisconnected]))
      else (s\<lparr>inbound := Raised e\<rparr>, []))"

fun receive_from_twilio :: "session \<Rightarrow> recv \<Rightarrow> session \<times> action list" where
  "receive_from_twilio s (Text message) =
     (case receive_body s message of Inl e \<Rightarrow> receive_except s e | Inr r \<Rightarrow> r)"
| "receive_from_twilio s (Raise e) = receive_except s e"
| "receive_from_twilio s StopIteration = (s\<lparr>inbound := Returned\<rparr>, [])"

text \<open>Line 132: the payload is decoded and encoded again.\<close>

definition audio_payload :: "json \<Rightarrow> exn + string" where
  "audio_payload delta =
     (case b64decode delta of Inl e \<Rightarrow> Inl e | Inr raw \<Rightarrow> Inr (b64encode raw))"

text \<open>
  Lines 131-142: the inner \<^verbatim>\<open>try\<close> of \<^verbatim>\<open>send_to_twilio\<close>. Whatever is raised while
  the payload is decoded and encoded again is caught and printed, and nothing is sent.
  The trace records the call of \<^verbatim>\<open>websocket.send_json\<close>; an exception of that call would be
  caught by the same handler and the loop would go on as well.
\<close>

definition forward_delta :: "session \<Rightarrow> json \<Rightarrow> action list" where
  "forward_delta s response =
     (case getitem response ''delta'' of Inl e \<Rightarrow> [Print (ErrorProcessingAudio e)] | Inr delta \<Rightarrow>
      (case audio_payload delta of Inl e \<Rightarrow> [Print (ErrorProcessingAudio e)] | Inr payload \<Rightarrow>
         [TwilioSendJson (audio_delta (stream_sid s) payload)]))"

text \<open>Lines 124-142: the body of the loop of \<^verbatim>\<open>send_to_twilio\<close>.\<close>

definition send_body :: "session \<Rightarrow> text_frame \<Rightarrow> exn + action list" where
  "send_body s openai_message =
     (case json_loads openai_message of Inl e \<Rightarrow> Inl e | Inr response \<Rightarrow>
      (case getitem response ''type'' of Inl e \<Rightarrow> Inl e | Inr ty \<Rightarrow>
         let logged = (if ty \<in> set (map JStr LOG_EVENT_TYPES)
                       then [Print (ReceivedEvent ty response)] else []);
             updated = (if ty = JStr ''session.updated''
                        then [Print (SessionUpdated response)] else [])
         in if ty = JStr ''response.audio.delta'' then
              (case dict_get response ''delta'' of Inl e \<Rightarrow> Inl e | Inr delta \<Rightarrow>
                 Inr (logged @ updated @ (if truthy delta then forward_delta s response else [])))
            else Inr (logged @ updated)))"

text \<open>
  Lines 122-144: \<^verbatim>\<open>send_to_twilio\<close>, one step of its loop. Every exception that
  reaches the outer \<^verbatim>\<open>try\<close> is printed and ends the loop; the coroutine returns.
\<close>

definition send_except :: "session \<Rightarrow> exn \<Rightarrow> session \<times> action list" where
  "send_except s e = (s\<lparr>outbound := Returned\<rparr>, [Print (ErrorInSendToTwilio e)])"

fun send_to_twilio :: "session \<Rightarrow> recv \<Rightarrow> session \<times> action list" where
  "send_to_twilio s (Text openai_message) =
     (case send_body s openai_message of Inl e \<Rightarrow> send_except s e | Inr acts \<Rightarrow> (s, acts))"
| "send_to_twilio s (Raise e) = send_except s e"
| "send_to_twilio s StopIteration = (s\<lparr>outbound := Returned\<rparr>, [])"

text \<open>
  Line 147 runs the two coroutines on one event loop. A coroutine touches the shared
  state only between receiving a message and its next \<^verbatim>\<open>await\<close>, so a session is a
  sequence of events, each handled in one piece: something arrives for one of the
  loops, or the AI connection stops being open. A loop that has stopped takes nothing
  more. The order of the events of the two loops is not constrained. What
  \<^verbatim>\<open>handle_media_stream\<close> does around the two coroutines (the session update of line 94,
  the exit of the \<^verbatim>\<open>async with\<close> block of line 87) is not part of the model.
\<close>

datatype event = FromTwilio recv | FromOpenAI recv | OpenAIClosed

fun step :: "session \<Rightarrow> event \<Rightarrow> session \<times> action list" where
  "step s (FromTwilio r) = (if inbound s = Running then receive_from_twilio s r else (s, []))"
| "step s (FromOpenAI r) = (if outbound s = Running then send_to_twilio s r else (s, []))"
| "step s OpenAIClosed = (s\<lparr>ai_open := False\<rparr>, [])"

fun run :: "session \<Rightarrow> event list \<Rightarrow> session \<times> action list" where
  "run s [] = (s, [])"
| "run s (e # es) =
     (case step s e of (s', acts) \<Rightarrow> (case run s' es of (s'', acts') \<Rightarrow> (s'', acts @ acts')))"

text \<open>The messages sent on each connection, in the order of the calls.\<close>

fun to_openai :: "action list \<Rightarrow> json list" where
  "to_openai [] = []"
| "to_openai (AiSend j # acts) = j # to_openai acts"
| "to_openai (_ # acts) = to_openai acts"

fun to_twilio :: "action list \<Rightarrow> json list" where
  "to_twilio [] = []"
| "to_twilio (TwilioSendJson j # acts) = j # to_twilio acts"
| "to_twilio (_ # acts) = to_twilio acts"

fun closes :: "action list \<Rightarrow> nat" where
  "closes [] = 0"
| "closes (AiClose # acts) = Suc (closes acts)"
| "closes (_ # acts) = closes acts"

section \<open>The events of the specification\<close>

text \<open>
  The specification speaks of telephony events \<open>start(streamId)\<close>, \<open>media(payload)\<close> and
  others, and of AI events \<open>sessionUpdated\<close>, \<open>audioDelta(payload)\<close>, loggable ones and
  others, with the wire formats of its section 6. The two functions below read a parsed
  frame as such an event; \<open>None\<close> is a frame that is none of them (a field of the format
  is missing).
\<close>

datatype TelephonyEvent = TStart json | TMedia json | TOther

definition telephony_event :: "json \<Rightarrow> TelephonyEvent option" where
  "telephony_event data =
     (case getitem data ''event'' of Inl _ \<Rightarrow> None | Inr ev \<Rightarrow>
        if ev = JStr ''start'' then
          (case getitem data ''start'' of Inl _ \<Rightarrow> None | Inr st \<Rightarrow>
           (case getitem st ''streamSid'' of Inl _ \<Rightarrow> None | Inr sid \<Rightarrow> Some (TStart sid)))
        else if ev = JStr ''media'' then
          (case getitem data ''media'' of Inl _ \<Rightarrow> None | Inr m \<Rightarrow>
           (case getitem m ''payload'' of Inl _ \<Rightarrow> None | Inr p \<Rightarrow> Some (TMedia p)))
        else Some TOther)"

datatype AIEvent = ASessionUpdated | AAudioDelta json | ALoggable json | AOther

definition ai_event :: "json \<Rightarrow> AIEvent option" where
  "ai_event response =
     (case getitem response ''type'' of Inl _ \<Rightarrow> None | Inr ty \<Rightarrow>
        if ty = JStr ''session.updated'' then Some ASessionUpdated
        else if ty = JStr ''response.audio.delta'' then
          (case dict_get response ''delta'' of Inl _ \<Rightarrow> None | Inr d \<Rightarrow> Some (AAudioDelta d))
        else if ty \<in> set (map JStr LOG_EVENT_TYPES) then Some (ALoggable ty)
        else Some AOther)"

text \<open>The frames of section 6 in their smallest form.\<close>

definition start_frame :: "json \<Rightarrow> json" where
  "start_frame sid = JObj [(''event'', JStr ''start''), (''start'', JObj [(''streamSid'', sid)])]"

definition media_frame :: "json \<Rightarrow> json" where
  "media_frame payload =
     JObj [(''event'', JStr ''media''), (''media'', JObj [(''payload'', payload)])]"

definition session_updated_frame :: json where
  "session_updated_frame = JObj [(''type'', JStr ''session.updated'')]"

definition audio_delta_frame :: "json \<Rightarrow> json" where
  "audio_delta_frame delta = JObj [(''type'', JStr ''response.audio.delta''), (''delta'', delta)]"

text \<open>
  An event is well formed for the inbound loop when, if it arrives from telephony, it is
  a text frame that reads as a telephony event.
\<close>

fun telephony_wellformed :: "event \<Rightarrow> bool" where
  "telephony_wellformed (FromTwilio (Text (Some data))) = (telephony_event data \<noteq> None)"
| "telephony_wellformed (FromTwilio _) = False"
| "telephony_wellformed _ = True"

text \<open>The payloads of the media events of a session, in the order of arrival.\<close>

fun media_payloads :: "event list \<Rightarrow> json list" where
  "media_payloads [] = []"
| "media_payloads (FromTwilio (Text (Some data)) # es) =
     (case telephony_event data of
        Some (TMedia p) \<Rightarrow> p # media_payloads es
      | _ \<Rightarrow> media_payloads es)"
| "media_payloads (_ # es) = media_payloads es"

text \<open>The identifier of the last start event of a session, \<open>sid\<close> if there is none.\<close>

fun last_sid :: "json \<Rightarrow> event list \<Rightarrow> json" where
  "last_sid sid [] = sid"
| "last_sid sid (FromTwilio (Text (Some data)) # es) =
     (case telephony_event data of
        Some (TStart sid') \<Rightarrow> last_sid sid' es
      | _ \<Rightarrow> last_sid sid es)"
| "last_sid sid (_ # es) = last_sid sid es"

text \<open>A frame from telephony whose event is \<open>start\<close>.\<close>

fun is_start_frame :: "event \<Rightarrow> bool" where
  "is_start_frame (FromTwilio (Text (Some data))) = (getitem data ''event'' = Inr (JStr ''start''))"
| "is_start_frame _ = False"

text \<open>No \<open>b\<close> comes before the first \<open>a\<close> of the sequence.\<close>

definition precedes :: "event \<Rightarrow> event \<Rightarrow> event list \<Rightarrow> bool" where
  "precedes a b es = (b \<notin> set (takeWhile (\<lambda>e. e \<noteq> a) es))"

text \<open>An event that arrives for the inbound loop.\<close>

fun from_twilio :: "event \<Rightarrow> bool" where
  "from_twilio (FromTwilio _) = True"
| "from_twilio _ = False"

section \<open>Base64: decoding what the encoder wrote\<close>

lemma and_3: "(x::byte) AND 3 = take_bit 2 x"
  by (simp add: take_bit_eq_mask mask_eq_exp_minus_1)
lemma and_15: "(x::byte) AND 15 = take_bit 4 x"
  by (simp add: take_bit_eq_mask mask_eq_exp_minus_1)
lemma and_63: "(x::byte) AND 63 = take_bit 6 x"
  by (simp add: take_bit_eq_mask mask_eq_exp_minus_1)

lemma Suc_Suc_diff_2: "2 \<le> n \<Longrightarrow> Suc (Suc (n - 2)) = n"
  by arith
lemma add_diff_same: "k \<le> n \<Longrightarrow> k + (n - k) = (n::nat)"
  by arith

lemma byte1: "push_bit 2 (drop_bit 2 a) OR drop_bit 4 (push_bit 4 (a AND 3) OR drop_bit 4 b) = (a::byte)"
  unfolding and_3
  apply (rule bit_word_eqI)
  subgoal for n by (cases "2 \<le> n") (auto simp add: bit_simps Suc_Suc_diff_2)
  done
lemma byte1': "push_bit 2 (drop_bit 2 a) OR drop_bit 4 (push_bit 4 (a AND 3)) = (a::byte)"
  unfolding and_3
  apply (rule bit_word_eqI)
  subgoal for n by (cases "2 \<le> n") (auto simp add: bit_simps Suc_Suc_diff_2)
  done
lemma byte2: "push_bit 4 ((push_bit 4 (a AND 3) OR drop_bit 4 b) AND 15) OR drop_bit 2 (push_bit 2 (b AND 15) OR drop_bit 6 c) = (b::byte)"
  unfolding and_3 and_15
  apply (rule bit_word_eqI)
  subgoal for n by (cases "4 \<le> n") (auto simp add: bit_simps Suc_Suc_diff_2 add_diff_same)
  done
lemma byte2': "push_bit 4 ((push_bit 4 (a AND 3) OR drop_bit 4 b) AND 15) OR drop_bit 2 (push_bit 2 (b AND 15)) = (b::byte)"
  unfolding and_3 and_15
  apply (rule bit_word_eqI)
  subgoal for n by (cases "4 \<le> n") (auto simp add: bit_simps Suc_Suc_diff_2 add_diff_same)
  done
lemma byte3: "push_bit 6 ((push_bit 2 (b AND 15) OR drop_bit 6 c) AND 3) OR (c AND 63) = (c::byte)"
  unfolding and_3 and_15 and_63
  apply (rule bit_word_eqI)
  subgoal for n by (cases "6 \<le> n") (auto simp add: bit_simps Suc_Suc_diff_2 add_diff_same)
  done

lemma sextet1: "drop_bit 6 (drop_bit 2 (a::byte)) = 0"
  by (rule bit_word_eqI) (auto simp add: bit_simps)
lemma sextet2: "drop_bit 6 (push_bit 4 ((a::byte) AND 3) OR drop_bit 4 (b::byte)) = 0"
  unfolding and_3 by (rule bit_word_eqI) (auto simp add: bit_simps)
lemma sextet2': "drop_bit 6 (push_bit 4 ((a::byte) AND 3)) = 0"
  unfolding and_3 by (rule bit_word_eqI) (auto simp add: bit_simps)
lemma sextet3: "drop_bit 6 (push_bit 2 ((b::byte) AND 15) OR drop_bit 6 (c::byte)) = 0"
  unfolding and_15 by (rule bit_word_eqI) (auto simp add: bit_simps)
lemma sextet3': "drop_bit 6 (push_bit 2 ((b::byte) AND 15)) = 0"
  unfolding and_15 by (rule bit_word_eqI) (auto simp add: bit_simps)
lemma sextet4: "drop_bit 6 ((c::byte) AND 63) = 0"
  unfolding and_63 by (rule bit_word_eqI) (auto simp add: bit_simps)

lemma sextet_bound:
  assumes "drop_bit 6 (v::byte) = 0"
  shows "unat v < 64"
proof -
  have "unat (drop_bit 6 v) = 0" using assms by simp
  then have "unat v div 2 ^ 6 = 0" by (simp add: drop_bit_eq_div unat_div)
  then show ?thesis by (simp add: div_eq_0_iff)
qed

lemma length_alphabet: "length b64_alphabet = 64"
  by (simp add: b64_alphabet_def)

lemma distinct_alphabet: "distinct b64_alphabet"
  by (simp add: b64_alphabet_def)

lemma pad_not_in_alphabet: "CHR ''='' \<notin> set b64_alphabet"
  by (simp add: b64_alphabet_def)

lemma alphabet_ascii: "\<forall>c \<in> set b64_alphabet. (of_char c :: nat) < 128"
  by (simp add: b64_alphabet_def)

lemma table_in_alphabet:
  assumes "drop_bit 6 v = 0"
  shows "table_b2a_base64 v \<in> set b64_alphabet"
proof -
  have "unat v < length b64_alphabet" using assms by (simp add: sextet_bound length_alphabet)
  then show ?thesis unfolding table_b2a_base64_def by (rule nth_mem)
qed

lemma table_inverse:
  assumes "drop_bit 6 v = 0"
  shows "table_a2b_base64 (table_b2a_base64 v) = Some v"
proof -
  have n: "unat v < 64" using assms by (rule sextet_bound)
  have "map_of (zip b64_alphabet (map of_nat [0..<64])) (b64_alphabet ! unat v)
          = Some ((map of_nat [0..<64] :: byte list) ! unat v)"
    using n by (intro map_of_zip_nth) (simp_all add: length_alphabet distinct_alphabet)
  also have "(map of_nat [0..<64] :: byte list) ! unat v = v"
    using n by simp
  finally show ?thesis by (simp add: table_a2b_base64_def table_b2a_base64_def)
qed

lemma table_not_pad:
  assumes "drop_bit 6 v = 0"
  shows "table_b2a_base64 v \<noteq> CHR ''=''"
  using table_in_alphabet [OF assms] pad_not_in_alphabet by metis

lemma table_ascii:
  assumes "drop_bit 6 v = 0"
  shows "(of_char (table_b2a_base64 v) :: nat) < 128"
  using table_in_alphabet [OF assms] alphabet_ascii by blast

lemma a2b_sextet_0:
  assumes "drop_bit 6 v = 0"
  shows "a2b_base64 (table_b2a_base64 v # rest) 0 leftchar pads out = a2b_base64 rest 1 v 0 out"
  using table_inverse [OF assms] table_not_pad [OF assms] by simp

lemma a2b_sextet_1:
  assumes "drop_bit 6 v = 0"
  shows "a2b_base64 (table_b2a_base64 v # rest) 1 leftchar pads out =
           a2b_base64 rest 2 (v AND 15) 0 (out @ [push_bit 2 leftchar OR drop_bit 4 v])"
  using table_inverse [OF assms] table_not_pad [OF assms] by simp

lemma a2b_sextet_2:
  assumes "drop_bit 6 v = 0"
  shows "a2b_base64 (table_b2a_base64 v # rest) 2 leftchar pads out =
           a2b_base64 rest 3 (v AND 3) 0 (out @ [push_bit 4 leftchar OR drop_bit 2 v])"
  using table_inverse [OF assms] table_not_pad [OF assms] by simp

lemma a2b_sextet_3:
  assumes "drop_bit 6 v = 0"
  shows "a2b_base64 (table_b2a_base64 v # rest) 3 leftchar pads out =
           a2b_base64 rest 0 0 0 (out @ [push_bit 6 leftchar OR v])"
  using table_inverse [OF assms] table_not_pad [OF assms] by simp

lemma a2b_pad_2_0: "a2b_base64 (CHR ''='' # rest) 2 leftchar 0 out = a2b_base64 rest 2 leftchar 1 out"
  by simp

lemma a2b_pad_2_1: "a2b_base64 (CHR ''='' # rest) 2 leftchar 1 out = Inr out"
  by simp

lemma a2b_pad_3_0: "a2b_base64 (CHR ''='' # rest) 3 leftchar 0 out = Inr out"
  by simp

lemma a2b_group_1:
  "a2b_base64 (b64encode [a]) 0 leftchar pads out = Inr (out @ [a])"
  by (simp only: b64encode.simps a2b_sextet_0 [OF sextet1] a2b_sextet_1 [OF sextet2']
        a2b_pad_2_0 a2b_pad_2_1 byte1')

lemma a2b_group_2:
  "a2b_base64 (b64encode [a, b]) 0 leftchar pads out = Inr (out @ [a, b])"
  by (simp only: b64encode.simps a2b_sextet_0 [OF sextet1] a2b_sextet_1 [OF sextet2]
        a2b_sextet_2 [OF sextet3'] a2b_pad_3_0 byte1 byte2' append_assoc append_Cons append_Nil)

lemma a2b_group_3:
  "a2b_base64 (b64encode (a # b # c # raw)) 0 leftchar pads out =
     a2b_base64 (b64encode raw) 0 0 0 (out @ [a, b, c])"
  by (simp only: b64encode.simps a2b_sextet_0 [OF sextet1] a2b_sextet_1 [OF sextet2]
        a2b_sextet_2 [OF sextet3] a2b_sextet_3 [OF sextet4] byte1 byte2 byte3
        append_assoc append_Cons append_Nil)

lemma a2b_b64encode: "a2b_base64 (b64encode raw) 0 leftchar pads out = Inr (out @ raw)"
proof (induction raw arbitrary: leftchar pads out rule: b64encode.induct)
  case 1
  show ?case by simp
next
  case (2 a)
  show ?case by (rule a2b_group_1)
next
  case (3 a b)
  show ?case by (rule a2b_group_2)
next
  case (4 a b c bs)
  show ?case by (simp only: a2b_group_3 4 append_assoc append_Cons append_Nil)
qed

lemma is_ascii_b64encode: "is_ascii (b64encode raw)"
  by (induction raw rule: b64encode.induct) (simp_all add: is_ascii_def table_ascii sextet1 sextet2 sextet2' sextet3 sextet3' sextet4)

lemma b64encode_Nil: "b64encode raw = [] \<longleftrightarrow> raw = []"
  by (cases raw rule: b64encode.cases) simp_all

lemma b64decode_b64encode: "b64decode (JStr (b64encode raw)) = Inr raw"
  by (simp add: is_ascii_b64encode a2b_b64encode)

lemma audio_payload_b64encode: "audio_payload (JStr (b64encode raw)) = Inr (b64encode raw)"
  by (simp add: audio_payload_def b64decode_b64encode del: b64decode.simps)

lemma b64decode_QR: "b64decode (JStr ''QR=='') = Inr [65]"
  by code_simp

lemma b64encode_A: "b64encode [65] = ''QQ==''"
  by code_simp

section \<open>Steps and runs of a session\<close>

lemma run_append:
  "run s (xs @ ys) =
     (case run s xs of (s', a) \<Rightarrow> (case run s' ys of (s'', b) \<Rightarrow> (s'', a @ b)))"
  by (induction xs arbitrary: s) (auto split: prod.splits)

lemma fst_run_Cons: "fst (run s (e # es)) = fst (run (fst (step s e)) es)"
  by (simp split: prod.splits)

lemma snd_run_Cons: "snd (run s (e # es)) = snd (step s e) @ snd (run (fst (step s e)) es)"
  by (simp split: prod.splits)

lemma to_openai_append: "to_openai (xs @ ys) = to_openai xs @ to_openai ys"
  by (induction xs rule: to_openai.induct) simp_all

lemma to_twilio_append: "to_twilio (xs @ ys) = to_twilio xs @ to_twilio ys"
  by (induction xs rule: to_twilio.induct) simp_all

lemma closes_append: "closes (xs @ ys) = closes xs + closes ys"
  by (induction xs rule: closes.induct) simp_all

lemma step_media_closed:
  assumes "inbound s = Running" "\<not> ai_open s" "getitem data ''event'' = Inr (JStr ''media'')"
  shows "step s (FromTwilio (Text (Some data))) = (s, [])"
  using assms by (simp add: receive_body_def json_loads_def)

lemma step_start:
  assumes "inbound s = Running" "telephony_event data = Some (TStart sid)"
  shows "step s (FromTwilio (Text (Some data))) =
           (s\<lparr>stream_sid := sid\<rparr>, [Print (IncomingStreamStarted sid)])"
  using assms
  by (auto simp add: receive_body_def telephony_event_def json_loads_def
      split: sum.splits if_splits)

lemma step_wellformed:
  assumes "telephony_event data = Some ev" "inbound s = Running"
  shows "step s (FromTwilio (Text (Some data))) =
     (case ev of
        TStart sid \<Rightarrow> (s\<lparr>stream_sid := sid\<rparr>, [Print (IncomingStreamStarted sid)])
      | TMedia p \<Rightarrow> (s, if ai_open s then [AiSend (audio_append p)] else [])
      | TOther \<Rightarrow> (s, []))"
  using assms
  by (auto simp add: receive_body_def telephony_event_def json_loads_def
      split: sum.splits if_splits TelephonyEvent.splits)


lemma dict_get_getitem:
  assumes "dict_get response k = Inr d" "truthy d"
  shows "getitem response k = Inr d"
  using assms by (cases response) (auto split: option.splits)

lemma delta_not_logged: "JStr ''response.audio.delta'' \<notin> set (map JStr LOG_EVENT_TYPES)"
  by (simp add: LOG_EVENT_TYPES_def)

lemma step_delta:
  assumes "outbound s = Running" "ai_event response = Some (AAudioDelta d)"
  shows "step s (FromOpenAI (Text (Some response))) =
     (s, if truthy d then
           (case audio_payload d of
              Inl e \<Rightarrow> [Print (ErrorProcessingAudio e)]
            | Inr payload \<Rightarrow> [TwilioSendJson (audio_delta (stream_sid s) payload)])
         else [])"
proof -
  from assms(2) have ty: "getitem response ''type'' = Inr (JStr ''response.audio.delta'')"
    and d: "dict_get response ''delta'' = Inr d"
    by (auto simp add: ai_event_def split: sum.splits if_splits)
  show ?thesis
  proof (cases "truthy d")
    case True
    then have "getitem response ''delta'' = Inr d" using d by (simp add: dict_get_getitem)
    then show ?thesis
      using assms(1) ty d True delta_not_logged
      by (simp add: send_body_def json_loads_def forward_delta_def Let_def)
  next
    case False
    then show ?thesis
      using assms(1) ty d delta_not_logged
      by (simp add: send_body_def json_loads_def Let_def)
  qed
qed

lemma step_ai_state:
  "fst (step s (FromOpenAI r)) = s \<or> fst (step s (FromOpenAI r)) = s\<lparr>outbound := Returned\<rparr>"
  by (cases r) (auto simp add: send_except_def split: sum.splits)

lemma step_ai_actions:
  "to_openai (snd (step s (FromOpenAI r))) = [] \<and> closes (snd (step s (FromOpenAI r))) = 0"
  by (cases r)
     (auto simp add: send_except_def send_body_def forward_delta_def Let_def
        split: sum.splits option.splits)

lemma step_closed:
  assumes "\<not> ai_open s"
  shows "\<not> ai_open (fst (step s e)) \<and> to_openai (snd (step s e)) = [] \<and> closes (snd (step s e)) = 0"
proof (cases e)
  case (FromTwilio r)
  then show ?thesis using assms
    by (cases r)
       (auto simp add: receive_body_def receive_except_def split: sum.splits)
next
  case (FromOpenAI r)
  then show ?thesis using assms step_ai_actions [of s r] step_ai_state [of s r]
    by auto
next
  case OpenAIClosed
  then show ?thesis by simp
qed

lemma run_closed:
  assumes "\<not> ai_open s"
  shows "\<not> ai_open (fst (run s es)) \<and> to_openai (snd (run s es)) = [] \<and> closes (snd (run s es)) = 0"
  using assms
proof (induction es arbitrary: s)
  case Nil
  then show ?case by simp
next
  case (Cons e es)
  from step_closed [OF Cons.prems, of e] Cons.IH [of "fst (step s e)"]
  show ?case
    by (simp add: fst_run_Cons snd_run_Cons to_openai_append closes_append del: run.simps)
qed

lemma step_close_once:
  "closes (snd (step s e)) \<le> 1 \<and> (closes (snd (step s e)) = 1 \<longrightarrow> \<not> ai_open (fst (step s e)))"
proof (cases e)
  case (FromTwilio r)
  then show ?thesis
    by (cases r)
       (auto simp add: receive_body_def receive_except_def split: sum.splits)
next
  case (FromOpenAI r)
  then show ?thesis using step_ai_actions [of s r] by simp
next
  case OpenAIClosed
  then show ?thesis by simp
qed

lemma run_close_once: "closes (snd (run s es)) \<le> 1"
proof (induction es arbitrary: s)
  case Nil
  then show ?case by simp
next
  case (Cons e es)
  show ?case
  proof (cases "closes (snd (step s e)) = 1")
    case True
    with step_close_once [of s e] have "\<not> ai_open (fst (step s e))" by simp
    then have "closes (snd (run (fst (step s e)) es)) = 0" by (simp add: run_closed)
    then show ?thesis using True by (simp add: snd_run_Cons closes_append del: run.simps)
  next
    case False
    with step_close_once [of s e] have "closes (snd (step s e)) = 0" by simp
    then show ?thesis using Cons.IH [of "fst (step s e)"]
      by (simp add: snd_run_Cons closes_append del: run.simps)
  qed
qed


lemma fst_run_append: "fst (run s (xs @ ys)) = fst (run (fst (run s xs)) ys)"
  by (simp add: run_append split: prod.splits)

lemma snd_run_append: "snd (run s (xs @ ys)) = snd (run s xs) @ snd (run (fst (run s xs)) ys)"
  by (simp add: run_append split: prod.splits)

lemma run_open:
  assumes "ai_open (fst (run s es))"
  shows "ai_open s \<and> closes (snd (run s es)) = 0"
  using assms
proof (induction es arbitrary: s)
  case Nil
  then show ?case by simp
next
  case (Cons e es)
  from Cons.prems have "ai_open (fst (run (fst (step s e)) es))"
    by (simp add: fst_run_Cons del: run.simps)
  from Cons.IH [OF this]
  have 1: "ai_open (fst (step s e))" and 2: "closes (snd (run (fst (step s e)) es)) = 0"
    by simp_all
  from 1 step_closed [of s e] have 3: "ai_open s" by blast
  from 1 step_close_once [of s e] have "closes (snd (step s e)) = 0" by auto
  with 2 3 show ?case by (simp add: snd_run_Cons closes_append del: run.simps)
qed

lemma step_disconnect:
  assumes "inbound s = Running"
  shows "step s (FromTwilio (Raise WebSocketDisconnect)) =
     (if ai_open s
      then (s\<lparr>ai_open := False, inbound := Returned\<rparr>, [Print ClientDisconnected, AiClose])
      else (s\<lparr>inbound := Returned\<rparr>, [Print ClientDisconnected]))"
  using assms by (simp add: receive_except_def)

lemma step_not_twilio:
  assumes "\<not> from_twilio e"
  shows "inbound (fst (step s e)) = inbound s \<and> stream_sid (fst (step s e)) = stream_sid s
         \<and> closes (snd (step s e)) = 0 \<and> to_openai (snd (step s e)) = []"
proof (cases e)
  case (FromTwilio r)
  then show ?thesis using assms by simp
next
  case (FromOpenAI r)
  then show ?thesis using step_ai_actions [of s r] step_ai_state [of s r] by auto
next
  case OpenAIClosed
  then show ?thesis by simp
qed

lemma run_not_twilio:
  assumes "\<forall>e \<in> set es. \<not> from_twilio e"
  shows "inbound (fst (run s es)) = inbound s \<and> stream_sid (fst (run s es)) = stream_sid s
         \<and> closes (snd (run s es)) = 0 \<and> to_openai (snd (run s es)) = []"
  using assms
proof (induction es arbitrary: s)
  case Nil
  then show ?case by simp
next
  case (Cons e es)
  from Cons.prems have e: "\<not> from_twilio e" and es: "\<forall>e \<in> set es. \<not> from_twilio e" by simp_all
  from step_not_twilio [OF e, of s] Cons.IH [OF es, of "fst (step s e)"]
  show ?case
    by (simp add: fst_run_Cons snd_run_Cons closes_append to_openai_append del: run.simps)
qed

lemma telephony_wellformed_FromTwilio:
  "telephony_wellformed (FromTwilio r) \<longleftrightarrow>
     (\<exists>data ev. r = Text (Some data) \<and> telephony_event data = Some ev)"
proof (cases r)
  case (Text m)
  then show ?thesis by (cases m) auto
qed simp_all

lemma step_wf_event:
  assumes "telephony_wellformed e" "e \<noteq> OpenAIClosed" "inbound s = Running" "ai_open s"
  shows "inbound (fst (step s e)) = Running \<and> ai_open (fst (step s e)) \<and>
         to_openai (snd (step s e)) = map audio_append (media_payloads [e])"
proof (cases e)
  case (FromTwilio r)
  with assms(1) obtain data ev where r: "r = Text (Some data)" and ev: "telephony_event data = Some ev"
    by (auto simp add: telephony_wellformed_FromTwilio)
  show ?thesis
    using step_wellformed [OF ev assms(3)] assms(3,4) FromTwilio r ev
    by (cases ev) (simp_all del: step.simps)
next
  case (FromOpenAI r)
  then show ?thesis
    using step_ai_actions [of s r] step_ai_state [of s r] assms(3,4) by auto
next
  case OpenAIClosed
  then show ?thesis using assms(2) by simp
qed

lemma media_payloads_Cons: "media_payloads (e # es) = media_payloads [e] @ media_payloads es"
  by (cases "(e # es)" rule: media_payloads.cases) (auto split: option.splits TelephonyEvent.splits)

lemma step_wf_sid:
  assumes "telephony_wellformed e" "inbound s = Running"
  shows "inbound (fst (step s e)) = Running \<and>
         stream_sid (fst (step s e)) = last_sid (stream_sid s) [e]"
proof (cases e)
  case (FromTwilio r)
  with assms(1) obtain data ev where r: "r = Text (Some data)" and ev: "telephony_event data = Some ev"
    by (auto simp add: telephony_wellformed_FromTwilio)
  show ?thesis
    using step_wellformed [OF ev assms(2)] assms(2) FromTwilio r ev
    by (cases ev) (simp_all del: step.simps)
next
  case (FromOpenAI r)
  then show ?thesis
    using step_ai_state [of s r] assms(2) by auto
next
  case OpenAIClosed
  then show ?thesis using assms(2) by simp
qed

lemma last_sid_Cons: "last_sid sid (e # es) = last_sid (last_sid sid [e]) es"
  by (cases "(sid, e # es)" rule: last_sid.cases) (auto split: option.splits TelephonyEvent.splits)

lemma run_last_sid:
  assumes "inbound s = Running" "\<forall>e \<in> set es. telephony_wellformed e"
  shows "stream_sid (fst (run s es)) = last_sid (stream_sid s) es"
  using assms
proof (induction es arbitrary: s)
  case Nil
  then show ?case by simp
next
  case (Cons e es)
  from Cons.prems have e: "telephony_wellformed e"
    and es: "\<forall>e \<in> set es. telephony_wellformed e" by simp_all
  from step_wf_sid [OF e Cons.prems(1)]
  have 1: "inbound (fst (step s e)) = Running"
    and 2: "stream_sid (fst (step s e)) = last_sid (stream_sid s) [e]" by simp_all
  from Cons.IH [OF 1 es] 2 show ?case
    by (simp add: fst_run_Cons last_sid_Cons [of _ e es] del: run.simps last_sid.simps)
qed


lemma step_no_start:
  assumes "\<not> is_start_frame e"
  shows "stream_sid (fst (step s e)) = stream_sid s"
proof (cases e)
  case (FromTwilio r)
  show ?thesis
  proof (cases r)
    case (Text m)
    then show ?thesis using assms FromTwilio
      by (cases m)
         (auto simp add: receive_body_def receive_except_def json_loads_def split: sum.splits)
  next
    case (Raise x)
    then show ?thesis using FromTwilio by (simp add: receive_except_def)
  next
    case StopIteration
    then show ?thesis using FromTwilio by simp
  qed
next
  case (FromOpenAI r)
  then show ?thesis using step_ai_state [of s r] by auto
next
  case OpenAIClosed
  then show ?thesis by simp
qed

lemma run_no_start:
  assumes "\<forall>e \<in> set es. \<not> is_start_frame e"
  shows "stream_sid (fst (run s es)) = stream_sid s"
  using assms
proof (induction es arbitrary: s)
  case Nil
  then show ?case by simp
next
  case (Cons e es)
  then show ?case by (simp add: fst_run_Cons step_no_start del: run.simps)
qed

lemma b64decode_QQ: "b64decode (JStr ''QQ=='') = Inr [65]"
  by code_simp

lemma run_skip:
  assumes "\<And>s. fst (step s e) = s"
  shows "fst (run s (pre @ e # post)) = fst (run s (pre @ post)) \<and>
         snd (run s (pre @ e # post)) =
           snd (run s pre) @ snd (step (fst (run s pre)) e) @ snd (run (fst (run s pre)) post)"
  by (simp add: fst_run_append snd_run_append fst_run_Cons snd_run_Cons assms del: run.simps)

lemma step_delta_state:
  assumes "ai_event response = Some (AAudioDelta d)"
  shows "fst (step s (FromOpenAI (Text (Some response)))) = s"
  using step_delta [OF _ assms, of s] by (cases "outbound s = Running") (simp_all del: send_to_twilio.simps)

lemma step_empty_delta:
  assumes "ai_event response = Some (AAudioDelta d)" "\<not> truthy d"
  shows "step s (FromOpenAI (Text (Some response))) = (s, [])"
  using step_delta [OF _ assms(1), of s] assms(2)
  by (cases "outbound s = Running") (simp_all del: send_to_twilio.simps)

lemma b64decode_bad_padding: "b64decode (JStr ''QQ='') = Inl BinasciiError"
  by code_simp

lemma b64decode_Qg: "b64decode (JStr ''Qg=='') = Inr [66]"
  by code_simp

lemma b64encode_B: "b64encode [66] = ''Qg==''"
  by code_simp

lemma step_start_frame:
  "step s (FromTwilio (Text (Some (start_frame sid)))) =
     (if inbound s = Running
      then (s\<lparr>stream_sid := sid\<rparr>, [Print (IncomingStreamStarted sid)]) else (s, []))"
  by (simp add: start_frame_def receive_body_def json_loads_def)

lemma step_media_frame:
  "step s (FromTwilio (Text (Some (media_frame p)))) =
     (if inbound s = Running \<and> ai_open s then (s, [AiSend (audio_append p)]) else (s, []))"
  by (simp add: media_frame_def receive_body_def json_loads_def)

lemma step_session_updated_frame:
  "step s (FromOpenAI (Text (Some session_updated_frame))) =
     (if outbound s = Running then (s, [Print (SessionUpdated session_updated_frame)]) else (s, []))"
  by (simp add: session_updated_frame_def send_body_def json_loads_def LOG_EVENT_TYPES_def)

lemma ai_event_audio_delta_frame: "ai_event (audio_delta_frame d) = Some (AAudioDelta d)"
  by (simp add: ai_event_def audio_delta_frame_def)

lemma step_audio_delta_frame:
  "step s (FromOpenAI (Text (Some (audio_delta_frame d)))) =
     (if outbound s = Running \<and> truthy d then
        (case audio_payload d of
           Inl e \<Rightarrow> (s, [Print (ErrorProcessingAudio e)])
         | Inr payload \<Rightarrow> (s, [TwilioSendJson (audio_delta (stream_sid s) payload)]))
      else (s, []))"
proof (cases "outbound s = Running")
  case True
  from step_delta [OF True ai_event_audio_delta_frame, of d] True show ?thesis
    by (simp del: step.simps split: sum.splits)
next
  case False
  then show ?thesis by simp
qed

lemmas step_frames =
  step_start_frame step_media_frame step_session_updated_frame step_audio_delta_frame

lemma step_audio_delta_encoded:
  "step s (FromOpenAI (Text (Some (audio_delta_frame (JStr (b64encode raw)))))) =
     (if outbound s = Running \<and> raw \<noteq> []
      then (s, [TwilioSendJson (audio_delta (stream_sid s) (b64encode raw))]) else (s, []))"
  by (simp add: step_audio_delta_frame audio_payload_b64encode b64encode_Nil del: step.simps)

lemma frames_distinct:
  "media_frame p \<noteq> start_frame sid" "start_frame sid \<noteq> media_frame p"
  "session_updated_frame \<noteq> audio_delta_frame d" "audio_delta_frame d \<noteq> session_updated_frame"
  by (simp_all add: media_frame_def start_frame_def session_updated_frame_def audio_delta_frame_def)

lemma audio_payload_QQ: "audio_payload (JStr ''QQ=='') = Inr ''QQ==''"
  by (simp add: audio_payload_def b64decode_QQ b64encode_A del: b64decode.simps b64encode.simps)

lemma audio_payload_Qg: "audio_payload (JStr ''Qg=='') = Inr ''Qg==''"
  by (simp add: audio_payload_def b64decode_Qg b64encode_B del: b64decode.simps b64encode.simps)

lemma audio_payload_QR: "audio_payload (JStr ''QR=='') = Inr ''QQ==''"
  by (simp add: audio_payload_def b64decode_QR b64encode_A del: b64decode.simps b64encode.simps)

text \<open>
  What the handlers do when they run: the AI connection is closed at most once in a
  session, and exactly once when \<^verbatim>\<open>WebSocketDisconnect\<close> is raised in a running inbound
  loop while the connection is open; nothing that arrives from the AI side touches the
  inbound loop or closes anything.
\<close>

lemma shutdown_paths:
  "closes (snd (run s es)) \<le> 1 \<and>
   (inbound (fst (run s es)) = Running \<and> ai_open (fst (run s es)) \<longrightarrow>
      closes (snd (run s (es @ FromTwilio (Raise WebSocketDisconnect) # post))) = 1 \<and>
      \<not> ai_open (fst (run s (es @ [FromTwilio (Raise WebSocketDisconnect)])))) \<and>
   (inbound t = Running \<and> \<not> ai_open t \<longrightarrow>
      closes (snd (run t (FromTwilio (Raise WebSocketDisconnect) # post'))) = 0) \<and>
   ((\<forall>e \<in> set es'. \<not> from_twilio e) \<longrightarrow>
      inbound (fst (run s es')) = inbound s \<and> closes (snd (run s es')) = 0) \<and>
   (outbound s = Running \<longrightarrow>
      step s (FromOpenAI (Raise e)) = (s\<lparr>outbound := Returned\<rparr>, [Print (ErrorInSendToTwilio e)]) \<and>
      step s (FromOpenAI StopIteration) = (s\<lparr>outbound := Returned\<rparr>, []))"
proof (intro conjI impI)
  show "closes (snd (run s es)) \<le> 1" by (rule run_close_once)
next
  assume a: "inbound (fst (run s es)) = Running \<and> ai_open (fst (run s es))"
  let ?s = "fst (run s es)"
  let ?d = "FromTwilio (Raise WebSocketDisconnect)"
  from a have st: "step ?s ?d = (?s\<lparr>ai_open := False, inbound := Returned\<rparr>, [Print ClientDisconnected, AiClose])"
    by (simp add: step_disconnect del: step.simps)
  from a have c0: "closes (snd (run s es)) = 0" by (simp add: run_open)
  have "\<not> ai_open (fst (step ?s ?d))" using st by simp
  then have c2: "closes (snd (run (fst (step ?s ?d)) post)) = 0" by (simp add: run_closed)
  have "closes (snd (run s (es @ ?d # post))) =
        closes (snd (run s es)) + (closes (snd (step ?s ?d)) + closes (snd (run (fst (step ?s ?d)) post)))"
    by (simp add: snd_run_append snd_run_Cons closes_append del: run.simps)
  also have "\<dots> = 1" using c0 c2 st by simp
  finally show "closes (snd (run s (es @ ?d # post))) = 1" .
  show "\<not> ai_open (fst (run s (es @ [?d])))"
    using st by (simp add: fst_run_append)
next
  assume a: "inbound t = Running \<and> \<not> ai_open t"
  then show "closes (snd (run t (FromTwilio (Raise WebSocketDisconnect) # post'))) = 0"
    by (simp add: run_closed del: run.simps)
next
  assume "\<forall>e \<in> set es'. \<not> from_twilio e"
  from run_not_twilio [OF this, of s]
  show "inbound (fst (run s es')) = inbound s" and "closes (snd (run s es')) = 0" by simp_all
next
  assume "outbound s = Running"
  then show "step s (FromOpenAI (Raise e)) = (s\<lparr>outbound := Returned\<rparr>, [Print (ErrorInSendToTwilio e)])"
    and "step s (FromOpenAI StopIteration) = (s\<lparr>outbound := Returned\<rparr>, [])"
    by (simp_all add: send_except_def)
qed

lemma run_appends:
  assumes "inbound s = Running" "ai_open s"
    and "\<forall>e \<in> set es. telephony_wellformed e \<and> e \<noteq> OpenAIClosed"
  shows "to_openai (snd (run s es)) = map audio_append (media_payloads es)"
  using assms
proof (induction es arbitrary: s)
  case Nil
  then show ?case by simp
next
  case (Cons e es)
  from Cons.prems have e: "telephony_wellformed e" "e \<noteq> OpenAIClosed"
    and es: "\<forall>e \<in> set es. telephony_wellformed e \<and> e \<noteq> OpenAIClosed" by simp_all
  from step_wf_event [OF e Cons.prems(1,2)]
  have 1: "inbound (fst (step s e)) = Running" and 2: "ai_open (fst (step s e))"
    and 3: "to_openai (snd (step s e)) = map audio_append (media_payloads [e])" by simp_all
  from Cons.IH [OF 1 2 es] 3 show ?case
    by (simp add: snd_run_Cons to_openai_append media_payloads_Cons [of e es] del: run.simps media_payloads.simps)
qed

lemma step_delta_unlatched:
  assumes "\<forall>e \<in> set es. \<not> is_start_frame e"
    and "outbound (fst (run initial es)) = Running"
    and "ai_event response = Some (AAudioDelta d)" "truthy d" "b64decode d = Inr raw"
  shows "step (fst (run initial es)) (FromOpenAI (Text (Some response))) =
           (fst (run initial es), [TwilioSendJson (audio_delta JNull (b64encode raw))])"
proof -
  have "stream_sid (fst (run initial es)) = JNull"
    using run_no_start [OF assms(1), of initial] by (simp add: initial_def)
  then show ?thesis
    using step_delta [OF assms(2,3)] assms(4,5) by (simp add: audio_payload_def del: step.simps)
qed

section \<open>The claims\<close>

text \<open>
  C1. The telephony frames \<open>start(A)\<close>, \<open>media(p1)\<close>, \<open>media(p2)\<close> and the AI messages
  \<open>sessionUpdated\<close>, \<open>audioDelta(d1)\<close>, \<open>audioDelta(d2)\<close> arrive interleaved in any way
  in which the start event is handled before the first audio delta; \<open>d1\<close> and \<open>d2\<close> are
  the base64 encodings of byte strings that are not empty. Then the AI connection is
  sent the two append commands, and the telephony connection the two media events with
  the stream identifier \<open>A\<close> and the payloads \<open>d1\<close> and \<open>d2\<close>, in this order.
\<close>

theorem C1_end_to_end:
  assumes "es \<in> shuffles
      [FromTwilio (Text (Some (start_frame (JStr ''A'')))),
       FromTwilio (Text (Some (media_frame p1))),
       FromTwilio (Text (Some (media_frame p2)))]
      [FromOpenAI (Text (Some session_updated_frame)),
       FromOpenAI (Text (Some (audio_delta_frame (JStr (b64encode raw1))))),
       FromOpenAI (Text (Some (audio_delta_frame (JStr (b64encode raw2)))))]"
    and "precedes (FromTwilio (Text (Some (start_frame (JStr ''A'')))))
           (FromOpenAI (Text (Some (audio_delta_frame (JStr (b64encode raw1)))))) es"
    and "raw1 \<noteq> []" "raw2 \<noteq> []"
  shows "to_openai (snd (run initial es)) = [audio_append p1, audio_append p2] \<and>
         to_twilio (snd (run initial es)) =
           [audio_delta (JStr ''A'') (b64encode raw1), audio_delta (JStr ''A'') (b64encode raw2)]"
proof -
  have i: "inbound initial = Running" "outbound initial = Running" "ai_open initial"
    by (simp_all add: initial_def)
  show ?thesis
    using assms
    by (simp add: precedes_def, elim disjE)
       (simp_all add: i step_start_frame step_media_frame step_session_updated_frame
          step_audio_delta_encoded frames_distinct del: step.simps)
qed

theorem C1_witness:
  "[FromTwilio (Text (Some (start_frame (JStr ''A'')))),
    FromTwilio (Text (Some (media_frame (JStr ''QUJD'')))),
    FromOpenAI (Text (Some session_updated_frame)),
    FromOpenAI (Text (Some (audio_delta_frame (JStr (b64encode [65]))))),
    FromTwilio (Text (Some (media_frame (JStr ''REVG'')))),
    FromOpenAI (Text (Some (audio_delta_frame (JStr (b64encode [66])))))]
   \<in> shuffles
      [FromTwilio (Text (Some (start_frame (JStr ''A'')))),
       FromTwilio (Text (Some (media_frame (JStr ''QUJD'')))),
       FromTwilio (Text (Some (media_frame (JStr ''REVG''))))]
      [FromOpenAI (Text (Some session_updated_frame)),
       FromOpenAI (Text (Some (audio_delta_frame (JStr (b64encode [65]))))),
       FromOpenAI (Text (Some (audio_delta_frame (JStr (b64encode [66])))))] \<and>
   precedes (FromTwilio (Text (Some (start_frame (JStr ''A'')))))
     (FromOpenAI (Text (Some (audio_delta_frame (JStr (b64encode [65]))))))
     [FromTwilio (Text (Some (start_frame (JStr ''A'')))),
      FromTwilio (Text (Some (media_frame (JStr ''QUJD'')))),
      FromOpenAI (Text (Some session_updated_frame)),
      FromOpenAI (Text (Some (audio_delta_frame (JStr (b64encode [65]))))),
      FromTwilio (Text (Some (media_frame (JStr ''REVG'')))),
      FromOpenAI (Text (Some (audio_delta_frame (JStr (b64encode [66])))))] \<and>
   to_openai (snd (run initial
     [FromTwilio (Text (Some (start_frame (JStr ''A'')))),
      FromTwilio (Text (Some (media_frame (JStr ''QUJD'')))),
      FromOpenAI (Text (Some session_updated_frame)),
      FromOpenAI (Text (Some (audio_delta_frame (JStr (b64encode [65]))))),
      FromTwilio (Text (Some (media_frame (JStr ''REVG'')))),
      FromOpenAI (Text (Some (audio_delta_frame (JStr (b64encode [66])))))])) =
     [audio_append (JStr ''QUJD''), audio_append (JStr ''REVG'')] \<and>
   to_twilio (snd (run initial
     [FromTwilio (Text (Some (start_frame (JStr ''A'')))),
      FromTwilio (Text (Some (media_frame (JStr ''QUJD'')))),
      FromOpenAI (Text (Some session_updated_frame)),
      FromOpenAI (Text (Some (audio_delta_frame (JStr (b64encode [65]))))),
      FromTwilio (Text (Some (media_frame (JStr ''REVG'')))),
      FromOpenAI (Text (Some (audio_delta_frame (JStr (b64encode [66])))))])) =
     [audio_delta (JStr ''A'') ''QQ=='', audio_delta (JStr ''A'') ''Qg=='']"
proof -
  let ?es = "[FromTwilio (Text (Some (start_frame (JStr ''A'')))),
    FromTwilio (Text (Some (media_frame (JStr ''QUJD'')))),
    FromOpenAI (Text (Some session_updated_frame)),
    FromOpenAI (Text (Some (audio_delta_frame (JStr (b64encode [65]))))),
    FromTwilio (Text (Some (media_frame (JStr ''REVG'')))),
    FromOpenAI (Text (Some (audio_delta_frame (JStr (b64encode [66])))))]"
  have 1: "?es \<in> shuffles
      [FromTwilio (Text (Some (start_frame (JStr ''A'')))),
       FromTwilio (Text (Some (media_frame (JStr ''QUJD'')))),
       FromTwilio (Text (Some (media_frame (JStr ''REVG''))))]
      [FromOpenAI (Text (Some session_updated_frame)),
       FromOpenAI (Text (Some (audio_delta_frame (JStr (b64encode [65]))))),
       FromOpenAI (Text (Some (audio_delta_frame (JStr (b64encode [66])))))]"
    by (simp del: b64encode.simps)
  have 2: "precedes (FromTwilio (Text (Some (start_frame (JStr ''A'')))))
     (FromOpenAI (Text (Some (audio_delta_frame (JStr (b64encode [65])))))) ?es"
    by (simp add: precedes_def del: b64encode.simps)
  have 3: "[65 :: byte] \<noteq> []" "[66 :: byte] \<noteq> []" by simp_all
  from C1_end_to_end [OF 1 2 3] 1 2
  show ?thesis by (simp add: b64encode_A b64encode_B del: step.simps run.simps b64encode.simps)
qed

text \<open>
  C1 without these two conditions fails. When the first audio delta is handled before
  the start event, its media event carries the initial \<^verbatim>\<open>None\<close> as stream identifier; and
  the payload \<open>QR==\<close>, which the decoder accepts, is forwarded as \<open>QQ==\<close>.
\<close>

theorem C1_counterexample:
  "[FromOpenAI (Text (Some session_updated_frame)),
    FromOpenAI (Text (Some (audio_delta_frame (JStr ''QQ=='')))),
    FromTwilio (Text (Some (start_frame (JStr ''A'')))),
    FromTwilio (Text (Some (media_frame (JStr ''QUJD'')))),
    FromTwilio (Text (Some (media_frame (JStr ''REVG'')))),
    FromOpenAI (Text (Some (audio_delta_frame (JStr ''Qg==''))))]
   \<in> shuffles
      [FromTwilio (Text (Some (start_frame (JStr ''A'')))),
       FromTwilio (Text (Some (media_frame (JStr ''QUJD'')))),
       FromTwilio (Text (Some (media_frame (JStr ''REVG''))))]
      [FromOpenAI (Text (Some session_updated_frame)),
       FromOpenAI (Text (Some (audio_delta_frame (JStr ''QQ=='')))),
       FromOpenAI (Text (Some (audio_delta_frame (JStr ''Qg==''))))] \<and>
   to_twilio (snd (run initial
     [FromOpenAI (Text (Some session_updated_frame)),
      FromOpenAI (Text (Some (audio_delta_frame (JStr ''QQ=='')))),
      FromTwilio (Text (Some (start_frame (JStr ''A'')))),
      FromTwilio (Text (Some (media_frame (JStr ''QUJD'')))),
      FromTwilio (Text (Some (media_frame (JStr ''REVG'')))),
      FromOpenAI (Text (Some (audio_delta_frame (JStr ''Qg==''))))])) =
     [audio_delta JNull ''QQ=='', audio_delta (JStr ''A'') ''Qg==''] \<and>
   [audio_delta JNull ''QQ=='', audio_delta (JStr ''A'') ''Qg==''] \<noteq>
     [audio_delta (JStr ''A'') ''QQ=='', audio_delta (JStr ''A'') ''Qg==''] \<and>
   to_twilio (snd (run initial
     [FromTwilio (Text (Some (start_frame (JStr ''A'')))),
      FromTwilio (Text (Some (media_frame (JStr ''QUJD'')))),
      FromTwilio (Text (Some (media_frame (JStr ''REVG'')))),
      FromOpenAI (Text (Some session_updated_frame)),
      FromOpenAI (Text (Some (audio_delta_frame (JStr ''QR=='')))),
      FromOpenAI (Text (Some (audio_delta_frame (JStr ''Qg==''))))])) =
     [audio_delta (JStr ''A'') ''QQ=='', audio_delta (JStr ''A'') ''Qg==''] \<and>
   [audio_delta (JStr ''A'') ''QQ=='', audio_delta (JStr ''A'') ''Qg==''] \<noteq>
     [audio_delta (JStr ''A'') ''QR=='', audio_delta (JStr ''A'') ''Qg=='']"
proof -
  have i: "inbound initial = Running" "outbound initial = Running" "ai_open initial"
    "stream_sid initial = JNull"
    by (simp_all add: initial_def)
  show ?thesis
    by (simp add: i step_frames audio_payload_QQ audio_payload_Qg audio_payload_QR audio_delta_def
        del: step.simps)
qed


text \<open>
  C9. Decoding a payload and encoding the result again gives the payload back whenever
  the payload is the base64 encoding of a byte string.
\<close>

theorem C9_reencode_canonical:
  "b64decode (JStr (b64encode raw)) = Inr raw \<and>
   audio_payload (JStr (b64encode raw)) = Inr (b64encode raw)"
  by (simp add: b64decode_b64encode audio_payload_b64encode del: b64decode.simps)

text \<open>
  C9 does not hold for every payload that the decoder accepts: \<open>QR==\<close> decodes to the
  one byte 65, whose encoding is \<open>QQ==\<close>.
\<close>

theorem C9_counterexample:
  "b64decode (JStr ''QR=='') = Inr [65] \<and>
   audio_payload (JStr ''QR=='') = Inr ''QQ=='' \<and>
   audio_payload (JStr ''QR=='') \<noteq> Inr ''QR==''"
  by (simp add: audio_payload_def b64decode_QR b64encode_A del: b64decode.simps b64encode.simps)

text \<open>
  C6. Once the AI connection is not open, nothing more is sent to it, whatever arrives
  afterwards; a media event that arrives then is dropped: the state is the same, nothing
  is sent or kept, and the inbound loop goes on.
\<close>

theorem C6_nothing_after_close:
  assumes "\<not> ai_open (fst (run s pre))"
  shows "to_openai (snd (run s (pre @ post))) = to_openai (snd (run s pre)) \<and>
         (inbound (fst (run s pre)) = Running \<longrightarrow>
          getitem data ''event'' = Inr (JStr ''media'') \<longrightarrow>
            step (fst (run s pre)) (FromTwilio (Text (Some data))) = (fst (run s pre), []))"
  using run_closed [OF assms, of post] step_media_closed [of "fst (run s pre)" data] assms
  by (simp add: snd_run_append to_openai_append)

theorem C6_witness:
  "\<not> ai_open (fst (run initial [OpenAIClosed])) \<and>
   to_openai (snd (run initial
      ([OpenAIClosed] @ [FromTwilio (Text (Some (media_frame (JStr ''QUJD''))))]))) = [] \<and>
   inbound (fst (run initial [OpenAIClosed])) = Running \<and>
   getitem (media_frame (JStr ''QUJD'')) ''event'' = Inr (JStr ''media'') \<and>
   step (fst (run initial [OpenAIClosed])) (FromTwilio (Text (Some (media_frame (JStr ''QUJD''))))) =
     (fst (run initial [OpenAIClosed]), [])"
  using C6_nothing_after_close [of initial "[OpenAIClosed]"
      "[FromTwilio (Text (Some (media_frame (JStr ''QUJD''))))]" "media_frame (JStr ''QUJD'')"]
  by (simp add: initial_def media_frame_def)

text \<open>
  C7. The handler of lines 114-117 is the only place where the relay closes the AI
  connection, and it runs only when \<^verbatim>\<open>WebSocketDisconnect\<close> is raised inside the loop of
  line 101. The iterator \<^verbatim>\<open>websocket.iter_text()\<close> catches that exception itself and ends
  the iteration, so the closing of the telephony connection reaches the loop as the end
  of its iteration. Then the inbound loop returns, no close is asked for, and the AI
  connection is as open as it was: after a start event and the closing of the telephony
  connection the session has no close at all, while the handler, had the exception
  reached it, would have closed the AI connection once. The other half of the claim
  holds: the end or an exception of the iteration over the AI connection only ends the
  outbound loop.
\<close>

theorem C7_closing_not_propagated:
  "closes (snd (step s (FromTwilio StopIteration))) = 0 \<and>
   ai_open (fst (step s (FromTwilio StopIteration))) = ai_open s \<and>
   run initial [FromTwilio (Text (Some (start_frame (JStr ''A'')))), FromTwilio StopIteration] =
     (initial\<lparr>stream_sid := JStr ''A'', inbound := Returned\<rparr>,
      [Print (IncomingStreamStarted (JStr ''A''))]) \<and>
   closes (snd (run initial
     [FromTwilio (Text (Some (start_frame (JStr ''A'')))), FromTwilio StopIteration])) = 0 \<and>
   ai_open (fst (run initial
     [FromTwilio (Text (Some (start_frame (JStr ''A'')))), FromTwilio StopIteration])) \<and>
   closes (snd (run initial
     [FromTwilio (Text (Some (start_frame (JStr ''A'')))),
      FromTwilio (Raise WebSocketDisconnect)])) = 1 \<and>
   run initial [FromOpenAI (Raise ConnectionClosedError)] =
     (initial\<lparr>outbound := Returned\<rparr>, [Print (ErrorInSendToTwilio ConnectionClosedError)]) \<and>
   run initial [FromOpenAI StopIteration] = (initial\<lparr>outbound := Returned\<rparr>, [])"
  by (simp add: initial_def start_frame_def receive_body_def json_loads_def receive_except_def
      send_except_def)

text \<open>
  C4. While the AI connection stays open and every frame from telephony reads as a
  telephony event, the messages sent to the AI connection are exactly one command for
  each media event, in the order of arrival: the object whose \<open>type\<close> is
  \<open>input_audio_buffer.append\<close> and whose \<open>audio\<close> is the payload of the event as it
  came. Start events, their absence, and whatever arrives from the AI side make no
  difference.
\<close>

theorem C4_one_append_per_media:
  assumes "inbound s = Running" "ai_open s"
    and "\<forall>e \<in> set es. telephony_wellformed e \<and> e \<noteq> OpenAIClosed"
  shows "to_openai (snd (run s es)) =
           map (\<lambda>payload. JObj [(''type'', JStr ''input_audio_buffer.append''),
                               (''audio'', payload)])
             (media_payloads es)"
proof -
  have "audio_append = (\<lambda>payload. JObj [(''type'', JStr ''input_audio_buffer.append''),
                                         (''audio'', payload)])"
    by (rule ext) (simp add: audio_append_def)
  with run_appends [OF assms] show ?thesis by simp
qed

theorem C4_witness:
  "inbound initial = Running \<and> ai_open initial \<and>
   telephony_wellformed (FromTwilio (Text (Some (media_frame (JStr ''QUJD''))))) \<and>
   telephony_wellformed (FromOpenAI (Text (Some session_updated_frame))) \<and>
   telephony_wellformed (FromTwilio (Text (Some (start_frame (JStr ''A''))))) \<and>
   telephony_wellformed (FromTwilio (Text (Some (media_frame (JStr ''REVG''))))) \<and>
   to_openai (snd (run initial
     [FromTwilio (Text (Some (media_frame (JStr ''QUJD'')))),
      FromOpenAI (Text (Some session_updated_frame)),
      FromTwilio (Text (Some (start_frame (JStr ''A'')))),
      FromTwilio (Text (Some (media_frame (JStr ''REVG''))))])) =
     [JObj [(''type'', JStr ''input_audio_buffer.append''), (''audio'', JStr ''QUJD'')],
      JObj [(''type'', JStr ''input_audio_buffer.append''), (''audio'', JStr ''REVG'')]]"
proof -
  let ?es = "[FromTwilio (Text (Some (media_frame (JStr ''QUJD'')))),
      FromOpenAI (Text (Some session_updated_frame)),
      FromTwilio (Text (Some (start_frame (JStr ''A'')))),
      FromTwilio (Text (Some (media_frame (JStr ''REVG''))))]"
  have 1: "inbound initial = Running" "ai_open initial" by (simp_all add: initial_def)
  have 2: "\<forall>e \<in> set ?es. telephony_wellformed e \<and> e \<noteq> OpenAIClosed"
    by (simp add: media_frame_def start_frame_def telephony_event_def)
  have 3: "media_payloads ?es = [JStr ''QUJD'', JStr ''REVG'']"
    by (simp add: media_frame_def start_frame_def telephony_event_def)
  from C4_one_append_per_media [OF 1 2] 1 2 3
  show ?thesis by (simp del: run.simps)
qed

text \<open>
  C2 as the code has it. Line 112 assigns \<^verbatim>\<open>stream_sid\<close> at every start event, so
  after a session the variable holds the identifier of the last start event (the
  initial value if there was none), and an audio delta forwarded then carries that
  identifier.
\<close>

theorem C2_last_start_wins:
  assumes "inbound s = Running" "\<forall>e \<in> set es. telephony_wellformed e"
  shows "stream_sid (fst (run s es)) = last_sid (stream_sid s) es \<and>
         (outbound (fst (run s es)) = Running \<longrightarrow> ai_event response = Some (AAudioDelta d) \<longrightarrow>
          truthy d \<longrightarrow> audio_payload d = Inr payload \<longrightarrow>
            step (fst (run s es)) (FromOpenAI (Text (Some response))) =
              (fst (run s es), [TwilioSendJson (audio_delta (last_sid (stream_sid s) es) payload)]))"
  using run_last_sid [OF assms] step_delta [of "fst (run s es)" response d]
  by (simp del: step.simps)


theorem C2_witness:
  "inbound initial = Running \<and>
   telephony_wellformed (FromTwilio (Text (Some (start_frame (JStr ''A''))))) \<and>
   telephony_wellformed (FromTwilio (Text (Some (media_frame (JStr ''QUJD''))))) \<and>
   telephony_wellformed (FromTwilio (Text (Some (start_frame (JStr ''B''))))) \<and>
   stream_sid (fst (run initial
     [FromTwilio (Text (Some (start_frame (JStr ''A'')))),
      FromTwilio (Text (Some (media_frame (JStr ''QUJD'')))),
      FromTwilio (Text (Some (start_frame (JStr ''B''))))])) = JStr ''B'' \<and>
   outbound (fst (run initial
     [FromTwilio (Text (Some (start_frame (JStr ''A'')))),
      FromTwilio (Text (Some (media_frame (JStr ''QUJD'')))),
      FromTwilio (Text (Some (start_frame (JStr ''B''))))])) = Running \<and>
   ai_event (audio_delta_frame (JStr ''QQ=='')) = Some (AAudioDelta (JStr ''QQ=='')) \<and>
   truthy (JStr ''QQ=='') \<and> audio_payload (JStr ''QQ=='') = Inr ''QQ=='' \<and>
   snd (step (fst (run initial
     [FromTwilio (Text (Some (start_frame (JStr ''A'')))),
      FromTwilio (Text (Some (media_frame (JStr ''QUJD'')))),
      FromTwilio (Text (Some (start_frame (JStr ''B''))))]))
     (FromOpenAI (Text (Some (audio_delta_frame (JStr ''QQ=='')))))) =
     [TwilioSendJson (audio_delta (JStr ''B'') ''QQ=='')]"
proof -
  let ?es = "[FromTwilio (Text (Some (start_frame (JStr ''A'')))),
      FromTwilio (Text (Some (media_frame (JStr ''QUJD'')))),
      FromTwilio (Text (Some (start_frame (JStr ''B''))))]"
  have 1: "inbound initial = Running" by (simp add: initial_def)
  have 2: "\<forall>e \<in> set ?es. telephony_wellformed e"
    by (simp add: start_frame_def media_frame_def telephony_event_def)
  have 3: "outbound (fst (run initial ?es)) = Running"
    by (simp add: initial_def start_frame_def media_frame_def receive_body_def json_loads_def)
  have 4: "ai_event (audio_delta_frame (JStr ''QQ=='')) = Some (AAudioDelta (JStr ''QQ==''))"
    by (simp add: ai_event_def audio_delta_frame_def)
  have 5: "truthy (JStr ''QQ=='')" by simp
  have 6: "audio_payload (JStr ''QQ=='') = Inr ''QQ==''"
    by (simp add: audio_payload_def b64decode_QQ b64encode_A del: b64decode.simps b64encode.simps)
  have 7: "last_sid (stream_sid initial) ?es = JStr ''B''"
    by (simp add: initial_def start_frame_def media_frame_def telephony_event_def)
  from C2_last_start_wins [OF 1 2, of "audio_delta_frame (JStr ''QQ=='')" "JStr ''QQ==''" "''QQ==''"]
    1 2 3 4 5 6 7
  show ?thesis by (simp del: step.simps run.simps b64decode.simps b64encode.simps)
qed

text \<open>
  C2 as the specification states it (the first start event wins) fails: after
  \<open>start(A)\<close> the variable holds \<open>A\<close>, and after a following \<open>start(B)\<close> it holds \<open>B\<close>.
\<close>

theorem C2_counterexample:
  "stream_sid (fst (run initial [FromTwilio (Text (Some (start_frame (JStr ''A''))))])) = JStr ''A'' \<and>
   stream_sid (fst (run initial
     [FromTwilio (Text (Some (start_frame (JStr ''A'')))),
      FromTwilio (Text (Some (start_frame (JStr ''B''))))])) = JStr ''B''"
  by (simp add: initial_def start_frame_def receive_body_def json_loads_def)

text \<open>
  C8. In a session in which no start event has arrived and the outbound loop is still
  running, an audio delta whose payload is not empty and decodes is forwarded: exactly
  one message is sent to telephony, the object whose \<open>event\<close> is \<open>media\<close>, whose
  \<open>streamSid\<close> is the initial \<^verbatim>\<open>None\<close> of line 95 (\<open>null\<close> on the wire) and whose
  \<open>media.payload\<close> is the payload decoded and encoded again. The state stays as it is.
\<close>

theorem C8_delta_before_start:
  assumes "\<forall>e \<in> set es. \<not> is_start_frame e"
    and "outbound (fst (run initial es)) = Running"
    and "ai_event response = Some (AAudioDelta d)" "truthy d" "b64decode d = Inr raw"
  shows "step (fst (run initial es)) (FromOpenAI (Text (Some response))) =
           (fst (run initial es),
            [TwilioSendJson
               (JObj [(''event'', JStr ''media''), (''streamSid'', JNull),
                      (''media'', JObj [(''payload'', JStr (b64encode raw))])])])"
  using step_delta_unlatched [OF assms] by (simp add: audio_delta_def del: step.simps)

theorem C8_witness:
  "\<not> is_start_frame (FromTwilio (Text (Some (media_frame (JStr ''QUJD''))))) \<and>
   \<not> is_start_frame (FromOpenAI (Text (Some session_updated_frame))) \<and>
   outbound (fst (run initial
     [FromTwilio (Text (Some (media_frame (JStr ''QUJD'')))),
      FromOpenAI (Text (Some session_updated_frame))])) = Running \<and>
   ai_event (audio_delta_frame (JStr ''QR=='')) = Some (AAudioDelta (JStr ''QR=='')) \<and>
   truthy (JStr ''QR=='') \<and> b64decode (JStr ''QR=='') = Inr [65] \<and>
   step (fst (run initial
     [FromTwilio (Text (Some (media_frame (JStr ''QUJD'')))),
      FromOpenAI (Text (Some session_updated_frame))]))
     (FromOpenAI (Text (Some (audio_delta_frame (JStr ''QR==''))))) =
     (fst (run initial
       [FromTwilio (Text (Some (media_frame (JStr ''QUJD'')))),
        FromOpenAI (Text (Some session_updated_frame))]),
      [TwilioSendJson
         (JObj [(''event'', JStr ''media''), (''streamSid'', JNull),
                (''media'', JObj [(''payload'', JStr ''QQ=='')])])])"
proof -
  have 1: "\<forall>e \<in> set [FromTwilio (Text (Some (media_frame (JStr ''QUJD'')))),
            FromOpenAI (Text (Some session_updated_frame))]. \<not> is_start_frame e"
    by (simp add: media_frame_def)
  have 2: "outbound (fst (run initial
     [FromTwilio (Text (Some (media_frame (JStr ''QUJD'')))),
      FromOpenAI (Text (Some session_updated_frame))])) = Running"
    by (simp add: initial_def media_frame_def session_updated_frame_def receive_body_def
        send_body_def json_loads_def LOG_EVENT_TYPES_def)
  have 3: "ai_event (audio_delta_frame (JStr ''QR=='')) = Some (AAudioDelta (JStr ''QR==''))"
    by (simp add: ai_event_def audio_delta_frame_def)
  have 4: "truthy (JStr ''QR=='')" by simp
  from C8_delta_before_start [OF 1 2 3 4 b64decode_QR] 1 2 3 4 b64decode_QR
  show ?thesis
    by (simp add: b64encode_A del: step.simps run.simps b64decode.simps b64encode.simps)
qed

text \<open>
  C5. An audio delta whose payload is the empty string does nothing at all: the step
  leaves the state as it is and produces no action, so a session with such a delta
  anywhere in it is the session without it.
\<close>

theorem C5_empty_delta_not_forwarded:
  assumes "ai_event response = Some (AAudioDelta (JStr []))"
  shows "step s (FromOpenAI (Text (Some response))) = (s, []) \<and>
         run s (pre @ FromOpenAI (Text (Some response)) # post) = run s (pre @ post)"
proof -
  have st: "step s (FromOpenAI (Text (Some response))) = (s, [])" for s
    using step_empty_delta [OF assms] by simp
  have "fst (step s (FromOpenAI (Text (Some response)))) = s" for s by (simp add: st del: step.simps)
  from run_skip [OF this, of s pre post]
  have "run s (pre @ FromOpenAI (Text (Some response)) # post) = run s (pre @ post)"
    by (simp add: prod_eq_iff st snd_run_append del: step.simps run.simps(2))
  with st show ?thesis by (simp del: step.simps run.simps(2))
qed

theorem C5_witness:
  "ai_event (audio_delta_frame (JStr [])) = Some (AAudioDelta (JStr [])) \<and>
   step initial (FromOpenAI (Text (Some (audio_delta_frame (JStr []))))) = (initial, []) \<and>
   to_twilio (snd (run initial
     ([FromTwilio (Text (Some (start_frame (JStr ''A''))))]
        @ FromOpenAI (Text (Some (audio_delta_frame (JStr []))))
        # [FromOpenAI (Text (Some (audio_delta_frame (JStr ''QQ==''))))]))) =
     [audio_delta (JStr ''A'') ''QQ=='']"
proof -
  have 1: "ai_event (audio_delta_frame (JStr [])) = Some (AAudioDelta (JStr []))"
    by (simp add: ai_event_def audio_delta_frame_def)
  have 2: "ai_event (audio_delta_frame (JStr ''QQ=='')) = Some (AAudioDelta (JStr ''QQ==''))"
    by (simp add: ai_event_def audio_delta_frame_def)
  have 3: "audio_payload (JStr ''QQ=='') = Inr ''QQ==''"
    by (simp add: audio_payload_def b64decode_QQ b64encode_A del: b64decode.simps b64encode.simps)
  have 4: "telephony_event (start_frame (JStr ''A'')) = Some (TStart (JStr ''A''))"
    by (simp add: telephony_event_def start_frame_def)
  have 5: "to_twilio (snd (run initial
     ([FromTwilio (Text (Some (start_frame (JStr ''A''))))]
        @ [FromOpenAI (Text (Some (audio_delta_frame (JStr ''QQ==''))))]))) =
     [audio_delta (JStr ''A'') ''QQ=='']"
    using step_start [OF _ 4, of initial]
      step_delta [OF _ 2, of "initial\<lparr>stream_sid := JStr ''A''\<rparr>"] 3
    by (simp add: initial_def del: step.simps b64decode.simps b64encode.simps)
  from C5_empty_delta_not_forwarded [OF 1, of initial
      "[FromTwilio (Text (Some (start_frame (JStr ''A''))))]"
      "[FromOpenAI (Text (Some (audio_delta_frame (JStr ''QQ==''))))]"] 1 5
  show ?thesis by (simp del: step.simps run.simps(2))
qed

text \<open>
  C3. An audio delta whose payload fails to decode leaves the state as it is, the
  outbound loop included, and sends nothing to telephony; what is sent to telephony in
  a session with such a delta anywhere in it is what is sent without it. In particular
  a delta that follows it, not empty and decodable, is forwarded with the current
  stream identifier.
\<close>

theorem C3_undecodable_delta_dropped:
  assumes "ai_event bad = Some (AAudioDelta d)" "b64decode d = Inl e"
  shows "fst (step s (FromOpenAI (Text (Some bad)))) = s \<and>
         to_twilio (snd (step s (FromOpenAI (Text (Some bad))))) = [] \<and>
         fst (run s (pre @ FromOpenAI (Text (Some bad)) # post)) = fst (run s (pre @ post)) \<and>
         to_twilio (snd (run s (pre @ FromOpenAI (Text (Some bad)) # post))) =
           to_twilio (snd (run s (pre @ post))) \<and>
         (outbound s = Running \<longrightarrow> ai_event good = Some (AAudioDelta d') \<longrightarrow> truthy d' \<longrightarrow>
          b64decode d' = Inr raw \<longrightarrow>
            to_twilio (snd (run s [FromOpenAI (Text (Some bad)), FromOpenAI (Text (Some good))])) =
              [audio_delta (stream_sid s) (b64encode raw)])"
proof -
  let ?b = "FromOpenAI (Text (Some bad))"
  have st: "fst (step s ?b) = s" for s by (rule step_delta_state [OF assms(1)])
  have out: "to_twilio (snd (step s ?b)) = []" for s
    using step_delta [OF _ assms(1), of s] assms(2)
    by (cases "outbound s = Running") (simp_all add: audio_payload_def del: send_to_twilio.simps)
  from run_skip [of ?b s pre post] st
  have skip: "fst (run s (pre @ ?b # post)) = fst (run s (pre @ post))"
    "to_twilio (snd (run s (pre @ ?b # post))) = to_twilio (snd (run s (pre @ post)))"
    by (simp_all add: to_twilio_append out snd_run_append del: step.simps run.simps(2))
  have good: "to_twilio (snd (run s [?b, FromOpenAI (Text (Some good))])) =
              [audio_delta (stream_sid s) (b64encode raw)]"
    if "outbound s = Running" "ai_event good = Some (AAudioDelta d')" "truthy d'" "b64decode d' = Inr raw"
    using step_delta [OF that(1,2)] that(3,4) st [of s] out [of s]
    by (simp add: snd_run_Cons to_twilio_append audio_payload_def del: step.simps run.simps(2))
  from st out skip good show ?thesis by (simp del: step.simps run.simps(2))
qed


theorem C3_witness:
  "ai_event (audio_delta_frame (JStr ''QQ='')) = Some (AAudioDelta (JStr ''QQ='')) \<and>
   b64decode (JStr ''QQ='') = Inl BinasciiError \<and>
   fst (step initial (FromOpenAI (Text (Some (audio_delta_frame (JStr ''QQ='')))))) = initial \<and>
   outbound initial = Running \<and>
   ai_event (audio_delta_frame (JStr ''QQ=='')) = Some (AAudioDelta (JStr ''QQ=='')) \<and>
   truthy (JStr ''QQ=='') \<and> b64decode (JStr ''QQ=='') = Inr [65] \<and>
   to_twilio (snd (run initial
     [FromOpenAI (Text (Some (audio_delta_frame (JStr ''QQ='')))),
      FromOpenAI (Text (Some (audio_delta_frame (JStr ''QQ==''))))])) =
     [audio_delta (stream_sid initial) (b64encode [65])]"
proof -
  have 1: "outbound initial = Running" by (simp add: initial_def)
  have 2: "truthy (JStr ''QQ=='')" by simp
  from C3_undecodable_delta_dropped [OF ai_event_audio_delta_frame b64decode_bad_padding,
      of initial "[]" "[]" "audio_delta_frame (JStr ''QQ=='')" "JStr ''QQ==''" "[65]"]
    1 2 ai_event_audio_delta_frame b64decode_bad_padding b64decode_QQ
  show ?thesis by (simp del: step.simps run.simps b64decode.simps b64encode.simps)
qed

text \<open>
  C10. A frame that fails to parse ends its loop. From telephony, a text that is not
  JSON, a media event without \<open>media\<close> and one without \<open>payload\<close> each leave the
  inbound loop with an exception, and the media event that follows is not forwarded.
  From the AI side, a text that is not JSON and a message without \<open>type\<close> each end the
  outbound loop, and the audio delta that follows is not forwarded. A payload that does
  not decode is only skipped: the delta that follows it is forwarded.
\<close>

theorem C10_parse_failure_ends_loop:
  "run initial [FromTwilio (Text None), FromTwilio (Text (Some (media_frame p)))] =
     (initial\<lparr>inbound := Raised JSONDecodeError\<rparr>, []) \<and>
   run initial [FromTwilio (Text (Some (JObj [(''event'', JStr ''media'')]))),
                FromTwilio (Text (Some (media_frame p)))] =
     (initial\<lparr>inbound := Raised (KeyError ''media'')\<rparr>, []) \<and>
   run initial [FromTwilio (Text (Some (JObj [(''event'', JStr ''media''), (''media'', JObj [])]))),
                FromTwilio (Text (Some (media_frame p)))] =
     (initial\<lparr>inbound := Raised (KeyError ''payload'')\<rparr>, []) \<and>
   run initial [FromOpenAI (Text None), FromOpenAI (Text (Some (audio_delta_frame (JStr ''QQ==''))))] =
     (initial\<lparr>outbound := Returned\<rparr>, [Print (ErrorInSendToTwilio JSONDecodeError)]) \<and>
   run initial [FromOpenAI (Text (Some (JObj [(''delta'', JStr ''QQ=='')]))),
                FromOpenAI (Text (Some (audio_delta_frame (JStr ''QQ==''))))] =
     (initial\<lparr>outbound := Returned\<rparr>, [Print (ErrorInSendToTwilio (KeyError ''type''))]) \<and>
   run initial [FromOpenAI (Text (Some (audio_delta_frame (JStr ''QQ='')))),
                FromOpenAI (Text (Some (audio_delta_frame (JStr ''QQ==''))))] =
     (initial, [Print (ErrorProcessingAudio BinasciiError),
                TwilioSendJson (audio_delta JNull ''QQ=='')])"
proof -
  have a: "audio_payload (JStr ''QQ=='') = Inr ''QQ==''"
    by (simp add: audio_payload_def b64decode_QQ b64encode_A del: b64decode.simps b64encode.simps)
  have b: "audio_payload (JStr ''QQ='') = Inl BinasciiError"
    by (simp add: audio_payload_def b64decode_bad_padding del: b64decode.simps)
  have i: "inbound initial = Running" "outbound initial = Running" "ai_open initial"
    "stream_sid initial = JNull"
    by (simp_all add: initial_def)
  have 1: "step initial (FromTwilio (Text None)) = (initial\<lparr>inbound := Raised JSONDecodeError\<rparr>, [])"
    by (simp add: i receive_body_def json_loads_def receive_except_def)
  have 2: "step initial (FromTwilio (Text (Some (JObj [(''event'', JStr ''media'')])))) =
     (initial\<lparr>inbound := Raised (KeyError ''media'')\<rparr>, [])"
    by (simp add: i receive_body_def json_loads_def receive_except_def)
  have 3: "step initial (FromTwilio (Text (Some (JObj [(''event'', JStr ''media''), (''media'', JObj [])])))) =
     (initial\<lparr>inbound := Raised (KeyError ''payload'')\<rparr>, [])"
    by (simp add: i receive_body_def json_loads_def receive_except_def)
  have 4: "step initial (FromOpenAI (Text None)) =
     (initial\<lparr>outbound := Returned\<rparr>, [Print (ErrorInSendToTwilio JSONDecodeError)])"
    by (simp add: i send_body_def json_loads_def send_except_def)
  have 5: "step initial (FromOpenAI (Text (Some (JObj [(''delta'', JStr ''QQ=='')])))) =
     (initial\<lparr>outbound := Returned\<rparr>, [Print (ErrorInSendToTwilio (KeyError ''type''))])"
    by (simp add: i send_body_def json_loads_def send_except_def)
  show ?thesis
    by (simp add: 1 2 3 4 5 a b i step_frames del: step.simps b64decode.simps b64encode.simps)
qed

end
